theory Spec2Isabelle
  imports Main "HOL-Library.Word"
begin

section \<open>JavaScript strings\<close>

text \<open>
  A JavaScript string is a sequence of code units; it is modelled as a \<open>string\<close>, one
  element per code unit. \<open>String.prototype.substr(start, length)\<close> follows the
  ECMAScript definition: a negative start counts from the end and is clamped at 0, a
  start beyond the end is clamped to the size, an omitted length means the size, the
  length is clamped between 0 and the size, and the end is clamped to the size.
\<close>

definition substr :: "string \<Rightarrow> int \<Rightarrow> int option \<Rightarrow> string" where
  "substr s start len =
     (let n = int (length s);
          intStart = (if start < 0 then max (n + start) 0 else min start n);
          intLength = (case len of None \<Rightarrow> n | Some l \<Rightarrow> min (max l 0) n);
          intEnd = min (intStart + intLength) n
      in take (nat (intEnd - intStart)) (drop (nat intStart) s))"

text \<open>\<open>String.prototype.startsWith(searchString)\<close>, with the position left at 0.\<close>

definition startsWith :: "string \<Rightarrow> string \<Rightarrow> bool" where
  "startsWith s searchString = (take (length searchString) s = searchString)"

section \<open>The error classes (util/errors)\<close>

text \<open>
  Every class extends \<open>JOSEError\<close>, which extends the built-in \<open>Error\<close>. An instance
  is a record of its observable properties; a subclass that adds properties is a record
  extension.
\<close>

record JOSEError =
  name :: string
  message :: string
  code :: string

record JWTClaimValidationFailed = JOSEError +
  claim :: string
  reason :: string

text \<open>
  \<open>JWTExpired extends JOSEError implements JWTClaimValidationFailed\<close>: it has the
  same properties.
\<close>

type_synonym JWTExpired = JWTClaimValidationFailed

text \<open>
  \<open>JWKSMultipleMatchingKeys\<close> declares the property \<open>[Symbol.asyncIterator]\<close> of type
  \<open>() => AsyncIterableIterator<KeyLike>\<close> without an initializer. The sequence the
  iterator yields is a list of keys; \<open>None\<close> is a property that has not been assigned.
\<close>

record 'k JWKSMultipleMatchingKeys = JOSEError +
  asyncIterator :: "'k list option"

text \<open>
  The constructor of \<open>JOSEError\<close>. \<open>super(message)\<close> is the constructor of \<open>Error\<close>:
  the message is the argument, and the empty string of \<open>Error.prototype\<close> when the
  argument is undefined. The field initializer sets \<open>code\<close>, and the body sets \<open>name\<close>
  to \<open>this.constructor.name\<close>, the name of the class being instantiated, which is the
  first argument here. The stack trace that \<open>Error.captureStackTrace\<close> records is not
  part of the record.
\<close>

definition JOSEError_constructor :: "string \<Rightarrow> string option \<Rightarrow> JOSEError" where
  "JOSEError_constructor constructor_name msg =
     \<lparr>name = constructor_name,
      message = (case msg of None \<Rightarrow> [] | Some m \<Rightarrow> m),
      code = ''ERR_JOSE_GENERIC''\<rparr>"

text \<open>
  A default parameter value (\<open>claim = 'unspecified'\<close>) applies when the argument is
  undefined.
\<close>

definition default_param :: "'a \<Rightarrow> 'a option \<Rightarrow> 'a" where
  "default_param d arg = (case arg of None \<Rightarrow> d | Some v \<Rightarrow> v)"

text \<open>
  \<open>new C(...)\<close> for each class: the constructor of the superclass runs first, then the
  field initializers of the class in their order, then the rest of its constructor body.
\<close>

definition new_JOSEError :: "string option \<Rightarrow> JOSEError" where
  "new_JOSEError msg = JOSEError_constructor ''JOSEError'' msg"

definition new_JWTClaimValidationFailed ::
  "string \<Rightarrow> string option \<Rightarrow> string option \<Rightarrow> JWTClaimValidationFailed" where
  "new_JWTClaimValidationFailed msg claim_arg reason_arg =
     (let super = JOSEError_constructor ''JWTClaimValidationFailed'' (Some msg);
          this = super\<lparr>code := ''ERR_JWT_CLAIM_VALIDATION_FAILED''\<rparr>
      in \<lparr>name = name this, message = message this, code = code this,
          claim = default_param ''unspecified'' claim_arg,
          reason = default_param ''unspecified'' reason_arg\<rparr>)"

definition new_JWTExpired :: "string \<Rightarrow> string option \<Rightarrow> string option \<Rightarrow> JWTExpired" where
  "new_JWTExpired msg claim_arg reason_arg =
     (let super = JOSEError_constructor ''JWTExpired'' (Some msg);
          this = super\<lparr>code := ''ERR_JWT_EXPIRED''\<rparr>
      in \<lparr>name = name this, message = message this, code = code this,
          claim = default_param ''unspecified'' claim_arg,
          reason = default_param ''unspecified'' reason_arg\<rparr>)"

definition new_JOSEAlgNotAllowed :: "string option \<Rightarrow> JOSEError" where
  "new_JOSEAlgNotAllowed msg =
     (JOSEError_constructor ''JOSEAlgNotAllowed'' msg)\<lparr>code := ''ERR_JOSE_ALG_NOT_ALLOWED''\<rparr>"

definition new_JOSENotSupported :: "string option \<Rightarrow> JOSEError" where
  "new_JOSENotSupported msg =
     (JOSEError_constructor ''JOSENotSupported'' msg)\<lparr>code := ''ERR_JOSE_NOT_SUPPORTED''\<rparr>"

definition new_JWEDecryptionFailed :: "string option \<Rightarrow> JOSEError" where
  "new_JWEDecryptionFailed msg =
     (JOSEError_constructor ''JWEDecryptionFailed'' msg)
       \<lparr>code := ''ERR_JWE_DECRYPTION_FAILED'',
        message := ''decryption operation failed''\<rparr>"

definition new_JWEDecompressionFailed :: "string option \<Rightarrow> JOSEError" where
  "new_JWEDecompressionFailed msg =
     (JOSEError_constructor ''JWEDecompressionFailed'' msg)
       \<lparr>code := ''ERR_JWE_DECOMPRESSION_FAILED'',
        message := ''decompression operation failed''\<rparr>"

definition new_JWEInvalid :: "string option \<Rightarrow> JOSEError" where
  "new_JWEInvalid msg =
     (JOSEError_constructor ''JWEInvalid'' msg)\<lparr>code := ''ERR_JWE_INVALID''\<rparr>"

definition new_JWSInvalid :: "string option \<Rightarrow> JOSEError" where
  "new_JWSInvalid msg =
     (JOSEError_constructor ''JWSInvalid'' msg)\<lparr>code := ''ERR_JWS_INVALID''\<rparr>"

definition new_JWTInvalid :: "string option \<Rightarrow> JOSEError" where
  "new_JWTInvalid msg =
     (JOSEError_constructor ''JWTInvalid'' msg)\<lparr>code := ''ERR_JWT_INVALID''\<rparr>"

definition new_JWKInvalid :: "string option \<Rightarrow> JOSEError" where
  "new_JWKInvalid msg =
     (JOSEError_constructor ''JWKInvalid'' msg)\<lparr>code := ''ERR_JWK_INVALID''\<rparr>"

definition new_JWKSInvalid :: "string option \<Rightarrow> JOSEError" where
  "new_JWKSInvalid msg =
     (JOSEError_constructor ''JWKSInvalid'' msg)\<lparr>code := ''ERR_JWKS_INVALID''\<rparr>"

definition new_JWKSNoMatchingKey :: "string option \<Rightarrow> JOSEError" where
  "new_JWKSNoMatchingKey msg =
     (JOSEError_constructor ''JWKSNoMatchingKey'' msg)
       \<lparr>code := ''ERR_JWKS_NO_MATCHING_KEY'',
        message := ''no applicable key found in the JSON Web Key Set''\<rparr>"

definition new_JWKSMultipleMatchingKeys :: "string option \<Rightarrow> 'k JWKSMultipleMatchingKeys" where
  "new_JWKSMultipleMatchingKeys msg =
     (let super = JOSEError_constructor ''JWKSMultipleMatchingKeys'' msg;
          this = super\<lparr>code := ''ERR_JWKS_MULTIPLE_MATCHING_KEYS'',
                      message := ''multiple matching keys found in the JSON Web Key Set''\<rparr>
      in \<lparr>name = name this, message = message this, code = code this,
          asyncIterator = None\<rparr>)"

definition new_JWKSTimeout :: "string option \<Rightarrow> JOSEError" where
  "new_JWKSTimeout msg =
     (JOSEError_constructor ''JWKSTimeout'' msg)
       \<lparr>code := ''ERR_JWKS_TIMEOUT'', message := ''request timed out''\<rparr>"

definition new_JWSSignatureVerificationFailed :: "string option \<Rightarrow> JOSEError" where
  "new_JWSSignatureVerificationFailed msg =
     (JOSEError_constructor ''JWSSignatureVerificationFailed'' msg)
       \<lparr>code := ''ERR_JWS_SIGNATURE_VERIFICATION_FAILED'',
        message := ''signature verification failed''\<rparr>"

text \<open>The static getter \<open>code\<close> of each class.\<close>

definition JOSEError_code :: string where
  "JOSEError_code = ''ERR_JOSE_GENERIC''"

definition JWTClaimValidationFailed_code :: string where
  "JWTClaimValidationFailed_code = ''ERR_JWT_CLAIM_VALIDATION_FAILED''"

definition JWTExpired_code :: string where
  "JWTExpired_code = ''ERR_JWT_EXPIRED''"

definition JOSEAlgNotAllowed_code :: string where
  "JOSEAlgNotAllowed_code = ''ERR_JOSE_ALG_NOT_ALLOWED''"

definition JOSENotSupported_code :: string where
  "JOSENotSupported_code = ''ERR_JOSE_NOT_SUPPORTED''"

definition JWEDecryptionFailed_code :: string where
  "JWEDecryptionFailed_code = ''ERR_JWE_DECRYPTION_FAILED''"

definition JWEDecompressionFailed_code :: string where
  "JWEDecompressionFailed_code = ''ERR_JWE_DECOMPRESSION_FAILED''"

definition JWEInvalid_code :: string where
  "JWEInvalid_code = ''ERR_JWE_INVALID''"

definition JWSInvalid_code :: string where
  "JWSInvalid_code = ''ERR_JWS_INVALID''"

definition JWTInvalid_code :: string where
  "JWTInvalid_code = ''ERR_JWT_INVALID''"

definition JWKInvalid_code :: string where
  "JWKInvalid_code = ''ERR_JWK_INVALID''"

definition JWKSInvalid_code :: string where
  "JWKSInvalid_code = ''ERR_JWKS_INVALID''"

definition JWKSNoMatchingKey_code :: string where
  "JWKSNoMatchingKey_code = ''ERR_JWKS_NO_MATCHING_KEY''"

definition JWKSMultipleMatchingKeys_code :: string where
  "JWKSMultipleMatchingKeys_code = ''ERR_JWKS_MULTIPLE_MATCHING_KEYS''"

definition JWKSTimeout_code :: string where
  "JWKSTimeout_code = ''ERR_JWKS_TIMEOUT''"

definition JWSSignatureVerificationFailed_code :: string where
  "JWSSignatureVerificationFailed_code = ''ERR_JWS_SIGNATURE_VERIFICATION_FAILED''"

section \<open>AES-GCM key wrapping (runtime/aesgcmkw)\<close>

type_synonym Uint8Array = "8 word list"

text \<open>
  The module imports \<open>encrypt\<close>, \<open>decrypt\<close>, \<open>generateIv\<close> and the base64url encoder
  from other modules; they are the fields of a record that every operation receives.
  A rejected promise or a thrown exception is the left summand of the result.
  \<open>encrypt\<close> resolves to the object \<open>{ ciphertext, tag }\<close>, here the pair of the two.
  \<open>generateIv\<close> draws random bytes: it reads and advances a state \<open>'w\<close> of the
  random source. The AEAD primitives and the encoder do not touch that state.
\<close>

record ('k, 'e, 'w) aesgcmkw_imports =
  encrypt :: "string \<Rightarrow> Uint8Array \<Rightarrow> 'k \<Rightarrow> Uint8Array \<Rightarrow> Uint8Array
                \<Rightarrow> 'e + Uint8Array \<times> Uint8Array"
  decrypt :: "string \<Rightarrow> 'k \<Rightarrow> Uint8Array \<Rightarrow> Uint8Array \<Rightarrow> Uint8Array \<Rightarrow> Uint8Array
                \<Rightarrow> 'e + Uint8Array"
  generateIv :: "string \<Rightarrow> 'w \<Rightarrow> ('e + Uint8Array) \<times> 'w"
  base64url :: "Uint8Array \<Rightarrow> string"

text \<open>The object \<open>{ encryptedKey, iv, tag }\<close> that \<open>wrap\<close> resolves to.\<close>

record wrapped =
  encryptedKey :: Uint8Array
  iv :: string
  tag :: string

text \<open>
  \<open>wrap(alg, key, cek, iv?)\<close>. The optional \<open>iv\<close> is \<open>None\<close> when undefined.
  \<open>iv ||= generateIv(jweAlgorithm)\<close> assigns only when \<open>iv\<close> is falsy; a
  \<open>Uint8Array\<close> is an object and so truthy whatever its length, hence every supplied
  IV is kept. \<open>new Uint8Array(0)\<close> is the empty list.
\<close>

definition wrap ::
  "('k, 'e, 'w) aesgcmkw_imports \<Rightarrow> string \<Rightarrow> 'k \<Rightarrow> Uint8Array \<Rightarrow> Uint8Array option \<Rightarrow> 'w
     \<Rightarrow> ('e + wrapped) \<times> 'w" where
  "wrap I alg key cek iv_arg w =
     (let jweAlgorithm = substr alg 0 (Some 7) in
      case (case iv_arg of Some v \<Rightarrow> (Inr v, w) | None \<Rightarrow> generateIv I jweAlgorithm w) of
        (Inl e, w') \<Rightarrow> (Inl e, w')
      | (Inr iv', w') \<Rightarrow>
          (case encrypt I jweAlgorithm cek key iv' [] of
             Inl e \<Rightarrow> (Inl e, w')
           | Inr (ciphertext, tag') \<Rightarrow>
               (Inr \<lparr>encryptedKey = ciphertext, iv = base64url I iv',
                     tag = base64url I tag'\<rparr>, w')))"

text \<open>\<open>unwrap(alg, key, encryptedKey, iv, tag)\<close>.\<close>

definition unwrap ::
  "('k, 'e, 'w) aesgcmkw_imports \<Rightarrow> string \<Rightarrow> 'k \<Rightarrow> Uint8Array \<Rightarrow> Uint8Array \<Rightarrow> Uint8Array
     \<Rightarrow> 'e + Uint8Array" where
  "unwrap I alg key encryptedKey' iv' tag' =
     (let jweAlgorithm = substr alg 0 (Some 7) in
      decrypt I jweAlgorithm key encryptedKey' iv' tag' [])"

section \<open>Keys for signing and verifying (runtime/get_sign_verify_key)\<close>

text \<open>The string union type \<open>KeyUsage\<close> of the Web Cryptography API.\<close>

datatype KeyUsage =
  Usage_decrypt | Usage_deriveBits | Usage_deriveKey | Usage_encrypt
  | Usage_sign | Usage_unwrapKey | Usage_verify | Usage_wrapKey

text \<open>
  The parameter \<open>key: unknown\<close>: a \<open>CryptoKey\<close>, a \<open>Uint8Array\<close>, or any other
  value. \<open>isCryptoKey\<close> is imported from the runtime's webcrypto module and is the
  type guard \<open>key is CryptoKey\<close>.
\<close>

datatype ('ck, 'o) key_input =
  KeyCryptoKey 'ck | KeyUint8Array Uint8Array | KeyOther 'o

definition isCryptoKey :: "('ck, 'o) key_input \<Rightarrow> bool" where
  "isCryptoKey key = (case key of KeyCryptoKey _ \<Rightarrow> True | _ \<Rightarrow> False)"

definition isUint8Array :: "('ck, 'o) key_input \<Rightarrow> bool" where
  "isUint8Array key = (case key of KeyUint8Array _ \<Rightarrow> True | _ \<Rightarrow> False)"

text \<open>
  The algorithm argument of \<open>importKey\<close>: \<open>{ hash: { name: h }, name: n }\<close> is
  \<open>HmacImportParams (Algorithm h) n\<close>.
\<close>

datatype Algorithm = Algorithm (algorithm_name: string)

datatype HmacImportParams = HmacImportParams (hash: Algorithm) (hmac_name: string)

text \<open>
  The imports of the module. \<open>checkSigCryptoKey\<close> returns nothing or throws (\<open>Some\<close>
  of what it throws); \<open>invalidKeyInput(actual, ...types)\<close> builds a message;
  \<open>crypto.subtle.importKey(format, keyData, algorithm, extractable, keyUsages)\<close>
  returns a promise of a key, a value of type \<open>'p\<close>.
\<close>

record ('ck, 'o, 'x, 'p) sign_verify_imports =
  checkSigCryptoKey :: "'ck \<Rightarrow> string \<Rightarrow> KeyUsage \<Rightarrow> 'x option"
  invalidKeyInput :: "('ck, 'o) key_input \<Rightarrow> string list \<Rightarrow> string"
  importKey :: "string \<Rightarrow> Uint8Array \<Rightarrow> HmacImportParams \<Rightarrow> bool \<Rightarrow> KeyUsage list \<Rightarrow> 'p"

text \<open>What \<open>getCryptoKey\<close> throws, and what it returns.\<close>

datatype 'x thrown = Thrown 'x | TypeError string

datatype ('ck, 'p) key_result = Key 'ck | PromiseOfKey 'p

definition getCryptoKey ::
  "('ck, 'o, 'x, 'p) sign_verify_imports \<Rightarrow> string \<Rightarrow> ('ck, 'o) key_input \<Rightarrow> KeyUsage
     \<Rightarrow> 'x thrown + ('ck, 'p) key_result" where
  "getCryptoKey I alg key usage =
     (case key of
        KeyCryptoKey k \<Rightarrow>
          (case checkSigCryptoKey I k alg usage of
             Some x \<Rightarrow> Inl (Thrown x)
           | None \<Rightarrow> Inr (Key k))
      | KeyUint8Array bytes \<Rightarrow>
          if \<not> startsWith alg ''HS''
          then Inl (TypeError (invalidKeyInput I key [''CryptoKey'']))
          else Inr (PromiseOfKey
                 (importKey I ''raw'' bytes
                    (HmacImportParams (Algorithm (''SHA-'' @ substr alg (- 3) None)) ''HMAC'')
                    False [usage]))
      | KeyOther _ \<Rightarrow>
          Inl (TypeError (invalidKeyInput I key [''CryptoKey'', ''Uint8Array''])))"

section \<open>Selecting a key from the matching candidates\<close>

datatype 'k key_selection_error =
  NoMatchingKey JOSEError | MultipleMatchingKeys "'k JWKSMultipleMatchingKeys"

text \<open>
  Modelled from the spec: the code that filters a key set and assigns
  \<open>[Symbol.asyncIterator]\<close> on a \<open>JWKSMultipleMatchingKeys\<close> is not among the source
  files; only the class with the declared property is. Section 4.7 of the specification:
  with zero matches the outcome is the no-matching-key failure; with exactly one match
  it is that key; with more than one match it is the multiple-matching-keys failure
  carrying the sequence over all matches.
\<close>

fun select_key :: "'k list \<Rightarrow> 'k key_selection_error + 'k" where
  "select_key [] = Inl (NoMatchingKey (new_JWKSNoMatchingKey None))"
| "select_key [k] = Inr k"
| "select_key candidates =
     Inl (MultipleMatchingKeys
            ((new_JWKSMultipleMatchingKeys None)\<lparr>asyncIterator := Some candidates\<rparr>))"

section \<open>Concrete collaborators for evaluating the operations\<close>

text \<open>
  A small AEAD stand-in: the ciphertext is the plaintext with every byte XORed with the
  first key byte, and the tag is the IV followed by the AAD. Decryption checks the tag
  first. The only algorithm with an IV generator is \<open>A256GCM\<close>; the random source is a
  counter. The encoder writes each byte as one character.
\<close>

definition demo_mask :: "Uint8Array \<Rightarrow> Uint8Array \<Rightarrow> Uint8Array" where
  "demo_mask k bs = map (\<lambda>b. xor b (case k of [] \<Rightarrow> 0 | x # _ \<Rightarrow> x)) bs"

definition demo_encode :: "Uint8Array \<Rightarrow> string" where
  "demo_encode bs = map (\<lambda>b. char_of (unat b)) bs"

definition demo_decode :: "string \<Rightarrow> Uint8Array" where
  "demo_decode s = map (\<lambda>c. word_of_nat (of_char c)) s"

definition demo_aesgcmkw :: "(Uint8Array, string, nat) aesgcmkw_imports" where
  "demo_aesgcmkw =
     \<lparr>encrypt = (\<lambda>a plaintext k v aad. Inr (demo_mask k plaintext, v @ aad)),
      decrypt = (\<lambda>a k ciphertext v t aad.
                   if t = v @ aad then Inr (demo_mask k ciphertext)
                   else Inl ''decryption operation failed''),
      generateIv = (\<lambda>a w. if a = ''A256GCM'' then (Inr (replicate 12 (word_of_nat w)), Suc w)
                           else (Inl ''Unsupported JWE Algorithm'', w)),
      base64url = demo_encode\<rparr>"

definition demo_sign_verify ::
  "(nat, unit, string,
    string \<times> Uint8Array \<times> HmacImportParams \<times> bool \<times> KeyUsage list) sign_verify_imports" where
  "demo_sign_verify =
     \<lparr>checkSigCryptoKey = (\<lambda>k a u. if k = 0 then Some ''CryptoKey does not support this operation''
                                    else None),
      invalidKeyInput = (\<lambda>actual types.
                           ''Key must be of type ''
                           @ foldr (\<lambda>t rest. if rest = [] then t else t @ '' or '' @ rest)
                               types []),
      importKey = (\<lambda>format keyData algorithm extractable keyUsages.
                     (format, keyData, algorithm, extractable, keyUsages))\<rparr>"

section \<open>Properties of the error classes\<close>

text \<open>
  C4. Whatever message is passed to the constructor (or none), a
  \<open>JWEDecryptionFailed\<close> has the message \<open>decryption operation failed\<close> and a
  \<open>JWSSignatureVerificationFailed\<close> has the message \<open>signature verification failed\<close>:
  the message is a fixed string and carries nothing about the cause of the failure, so
  two instances built from different causes have the same message.
\<close>

theorem crypto_outcome_message_fixed:
  "message (new_JWEDecryptionFailed m) = ''decryption operation failed''
   \<and> message (new_JWSSignatureVerificationFailed m) = ''signature verification failed''
   \<and> message (new_JWEDecryptionFailed m) = message (new_JWEDecryptionFailed m')
   \<and> message (new_JWSSignatureVerificationFailed m)
       = message (new_JWSSignatureVerificationFailed m')"
  by (simp add: new_JWEDecryptionFailed_def new_JWSSignatureVerificationFailed_def)

text \<open>
  C5. For each of the sixteen classes, the \<open>code\<close> of a constructed instance is the
  static \<open>code\<close> of its class, whatever the constructor arguments, and the sixteen
  static codes are pairwise distinct.
\<close>

theorem stable_error_codes:
  "code (new_JOSEError m) = JOSEError_code
   \<and> code (new_JWTClaimValidationFailed s c r) = JWTClaimValidationFailed_code
   \<and> code (new_JWTExpired s c r) = JWTExpired_code
   \<and> code (new_JOSEAlgNotAllowed m) = JOSEAlgNotAllowed_code
   \<and> code (new_JOSENotSupported m) = JOSENotSupported_code
   \<and> code (new_JWEDecryptionFailed m) = JWEDecryptionFailed_code
   \<and> code (new_JWEDecompressionFailed m) = JWEDecompressionFailed_code
   \<and> code (new_JWEInvalid m) = JWEInvalid_code
   \<and> code (new_JWSInvalid m) = JWSInvalid_code
   \<and> code (new_JWTInvalid m) = JWTInvalid_code
   \<and> code (new_JWKInvalid m) = JWKInvalid_code
   \<and> code (new_JWKSInvalid m) = JWKSInvalid_code
   \<and> code (new_JWKSNoMatchingKey m) = JWKSNoMatchingKey_code
   \<and> code (new_JWKSMultipleMatchingKeys m :: 'k JWKSMultipleMatchingKeys)
       = JWKSMultipleMatchingKeys_code
   \<and> code (new_JWKSTimeout m) = JWKSTimeout_code
   \<and> code (new_JWSSignatureVerificationFailed m) = JWSSignatureVerificationFailed_code
   \<and> distinct
       [JOSEError_code, JWTClaimValidationFailed_code, JWTExpired_code,
        JOSEAlgNotAllowed_code, JOSENotSupported_code, JWEDecryptionFailed_code,
        JWEDecompressionFailed_code, JWEInvalid_code, JWSInvalid_code, JWTInvalid_code,
        JWKInvalid_code, JWKSInvalid_code, JWKSNoMatchingKey_code,
        JWKSMultipleMatchingKeys_code, JWKSTimeout_code,
        JWSSignatureVerificationFailed_code]"
  by (simp add: JOSEError_constructor_def
      new_JOSEError_def new_JWTClaimValidationFailed_def new_JWTExpired_def
      new_JOSEAlgNotAllowed_def new_JOSENotSupported_def new_JWEDecryptionFailed_def
      new_JWEDecompressionFailed_def new_JWEInvalid_def new_JWSInvalid_def new_JWTInvalid_def
      new_JWKInvalid_def new_JWKSInvalid_def new_JWKSNoMatchingKey_def
      new_JWKSMultipleMatchingKeys_def new_JWKSTimeout_def
      new_JWSSignatureVerificationFailed_def
      JOSEError_code_def JWTClaimValidationFailed_code_def JWTExpired_code_def
      JOSEAlgNotAllowed_code_def JOSENotSupported_code_def JWEDecryptionFailed_code_def
      JWEDecompressionFailed_code_def JWEInvalid_code_def JWSInvalid_code_def
      JWTInvalid_code_def JWKInvalid_code_def JWKSInvalid_code_def JWKSNoMatchingKey_code_def
      JWKSMultipleMatchingKeys_code_def JWKSTimeout_code_def
      JWSSignatureVerificationFailed_code_def)

text \<open>
  C6. A \<open>JOSEAlgNotAllowed\<close> carries the code \<open>ERR_JOSE_ALG_NOT_ALLOWED\<close>, a
  \<open>JOSENotSupported\<close> carries the code \<open>ERR_JOSE_NOT_SUPPORTED\<close>, and the two codes
  differ, so the policy violation and the unsupported algorithm can be told apart.
\<close>

theorem policy_and_support_failures_distinct:
  "code (new_JOSEAlgNotAllowed m) = ''ERR_JOSE_ALG_NOT_ALLOWED''
   \<and> JOSEAlgNotAllowed_code = ''ERR_JOSE_ALG_NOT_ALLOWED''
   \<and> code (new_JOSENotSupported m') = ''ERR_JOSE_NOT_SUPPORTED''
   \<and> JOSENotSupported_code = ''ERR_JOSE_NOT_SUPPORTED''
   \<and> code (new_JOSEAlgNotAllowed m) \<noteq> code (new_JOSENotSupported m')"
  by (simp add: new_JOSEAlgNotAllowed_def new_JOSENotSupported_def
      JOSEAlgNotAllowed_code_def JOSENotSupported_code_def)

text \<open>
  C8. When two or more keys match, the selection fails with a
  \<open>JWKSMultipleMatchingKeys\<close> whose iterator yields exactly the matching keys; its code
  is \<open>ERR_JWKS_MULTIPLE_MATCHING_KEYS\<close>, the code of every instance of the class and its
  static code, and differs from the code \<open>ERR_JWKS_NO_MATCHING_KEY\<close> of a
  \<open>JWKSNoMatchingKey\<close>.
\<close>

theorem multiple_matching_keys_failure:
  assumes "2 \<le> length candidates"
  shows "\<exists>e. select_key candidates = Inl (MultipleMatchingKeys e)
           \<and> asyncIterator e = Some candidates
           \<and> code e = ''ERR_JWKS_MULTIPLE_MATCHING_KEYS''
           \<and> code e = code (new_JWKSMultipleMatchingKeys m :: 'k JWKSMultipleMatchingKeys)
           \<and> code e = JWKSMultipleMatchingKeys_code
           \<and> code (new_JWKSNoMatchingKey m') = ''ERR_JWKS_NO_MATCHING_KEY''
           \<and> code e \<noteq> code (new_JWKSNoMatchingKey m')"
proof -
  from assms obtain k1 k2 ks where "candidates = k1 # k2 # ks"
    by (cases candidates; cases "tl candidates") auto
  then show ?thesis
    by (simp add: new_JWKSMultipleMatchingKeys_def new_JWKSNoMatchingKey_def
        JOSEError_constructor_def JWKSMultipleMatchingKeys_code_def)
qed

theorem multiple_matching_keys_failure_witness:
  "2 \<le> length [10, 20, 30 :: nat]
   \<and> (\<exists>e. select_key [10, 20, 30 :: nat] = Inl (MultipleMatchingKeys e)
           \<and> asyncIterator e = Some [10, 20, 30]
           \<and> code e = ''ERR_JWKS_MULTIPLE_MATCHING_KEYS''
           \<and> code e \<noteq> code (new_JWKSNoMatchingKey None))"
  using multiple_matching_keys_failure [of "[10, 20, 30 :: nat]" None None]
  by auto

section \<open>Properties of the string operations and of the concrete collaborators\<close>

text \<open>
  \<open>substr(0, 7)\<close> is the first seven elements (all of them when there are fewer), and
  \<open>substr(-3)\<close> is the last three (all of them when there are fewer).
\<close>

lemma substr_0_7: "substr s 0 (Some 7) = take 7 s"
  by (simp add: substr_def Let_def min_def max_def)

lemma substr_last3: "substr s (- 3) None = drop (length s - 3) s"
  by (auto simp add: substr_def Let_def min_def max_def nat_diff_distrib)

lemma demo_byte_roundtrip: "word_of_nat (unat (b :: 8 word) mod 256) = b"
proof -
  have "unat b < 2 ^ LENGTH(8)" by (rule unsigned_less)
  then have "unat b mod 256 = unat b" by simp
  then show ?thesis by simp
qed

lemma demo_decode_encode: "demo_decode (demo_encode bs) = bs"
  by (induction bs) (simp_all add: demo_encode_def demo_decode_def demo_byte_roundtrip)

lemma demo_mask_invol: "demo_mask k (demo_mask k bs) = bs"
  by (induction bs) (simp_all add: demo_mask_def xor.assoc)

lemma demo_decrypt_encrypt:
  "encrypt demo_aesgcmkw a pt k v aad = Inr (ct, tg) \<Longrightarrow>
   decrypt demo_aesgcmkw a k ct v tg aad = Inr pt"
  by (auto simp add: demo_aesgcmkw_def demo_mask_invol)

section \<open>Properties of AES-GCM key wrapping\<close>

text \<open>
  The two cases of the optional IV, with the truncated identifier written as \<open>take 7\<close>.
\<close>

lemma wrap_Some:
  "wrap I alg key cek (Some v) w =
     (case encrypt I (take 7 alg) cek key v [] of
        Inl e \<Rightarrow> (Inl e, w)
      | Inr (ct, tg) \<Rightarrow>
          (Inr \<lparr>encryptedKey = ct, iv = base64url I v, tag = base64url I tg\<rparr>, w))"
  by (simp add: wrap_def substr_0_7)

lemma wrap_None:
  "wrap I alg key cek None w =
     (case generateIv I (take 7 alg) w of
        (Inl e, w') \<Rightarrow> (Inl e, w')
      | (Inr v, w') \<Rightarrow> wrap I alg key cek (Some v) w')"
  by (simp add: wrap_def substr_0_7 split: prod.splits sum.splits)

text \<open>
  C1. \<open>wrap\<close> resolves to a value \<open>r\<close> exactly when there is an IV, the one the
  caller supplied (the random source is then left untouched) or, when none was supplied,
  the one \<open>generateIv\<close> produced for the truncated algorithm identifier, such that
  encrypting the CEK under that IV with the empty AAD succeeds with a ciphertext and a
  tag; \<open>r\<close> then holds the ciphertext as \<open>encryptedKey\<close> and the base64url encodings
  of the IV and of the tag.
\<close>

theorem wrap_returns_iff:
  "wrap I alg key cek iv_arg w = (Inr r, w') \<longleftrightarrow>
     (\<exists>v ct tg.
        (iv_arg = Some v \<and> w' = w
         \<or> iv_arg = None \<and> generateIv I (take 7 alg) w = (Inr v, w'))
        \<and> encrypt I (take 7 alg) cek key v [] = Inr (ct, tg)
        \<and> r = \<lparr>encryptedKey = ct, iv = base64url I v, tag = base64url I tg\<rparr>)"
proof (cases iv_arg)
  case None
  then show ?thesis
    by (auto simp add: wrap_None wrap_Some split: prod.splits sum.splits)
next
  case (Some v)
  then show ?thesis
    by (auto simp add: wrap_Some split: prod.splits sum.splits)
qed

theorem wrap_returns_iff_witness:
  "wrap demo_aesgcmkw ''A256GCMKW'' [7] [1, 2, 3] None (5 :: nat)
     = (Inr \<lparr>encryptedKey = [6, 5, 4], iv = demo_encode (replicate 12 5),
              tag = demo_encode (replicate 12 5)\<rparr>, 6)
   \<and> wrap demo_aesgcmkw ''A256GCMKW'' [7] [1, 2, 3] (Some [9, 9]) (5 :: nat)
     = (Inr \<lparr>encryptedKey = [6, 5, 4], iv = demo_encode [9, 9],
              tag = demo_encode [9, 9]\<rparr>, 5)"
  using wrap_returns_iff [of demo_aesgcmkw "''A256GCMKW''" "[7]" "[1, 2, 3]" None 5
      "\<lparr>encryptedKey = [6, 5, 4], iv = demo_encode (replicate 12 5),
        tag = demo_encode (replicate 12 5)\<rparr>" 6]
    wrap_returns_iff [of demo_aesgcmkw "''A256GCMKW''" "[7]" "[1, 2, 3]" "Some [9, 9]" 5
      "\<lparr>encryptedKey = [6, 5, 4], iv = demo_encode [9, 9], tag = demo_encode [9, 9]\<rparr>" 5]
  by (simp add: demo_aesgcmkw_def demo_mask_def)

text \<open>
  C2. Assume that \<open>decrypt\<close> inverts \<open>encrypt\<close> for the same algorithm, key, IV and
  AAD, and that \<open>decode\<close> inverts the base64url encoder. Whenever \<open>wrap\<close> resolves,
  with a supplied or a generated IV, \<open>unwrap\<close> of its encrypted key with the decoded IV
  and tag resolves to the original CEK. Both sides use the empty AAD.
\<close>

theorem unwrap_wrap:
  assumes inv: "\<And>a k v aad pt ct tg.
                  encrypt I a pt k v aad = Inr (ct, tg) \<Longrightarrow> decrypt I a k ct v tg aad = Inr pt"
    and dec: "\<And>b. decode (base64url I b) = b"
    and wr: "wrap I alg key cek iv_arg w = (Inr r, w')"
  shows "unwrap I alg key (encryptedKey r) (decode (iv r)) (decode (tag r)) = Inr cek"
proof -
  from wr obtain v ct tg where
    e: "encrypt I (take 7 alg) cek key v [] = Inr (ct, tg)"
    and r: "r = \<lparr>encryptedKey = ct, iv = base64url I v, tag = base64url I tg\<rparr>"
    by (cases iv_arg) (auto simp add: wrap_None wrap_Some split: prod.splits sum.splits)
  from inv [OF e] have "decrypt I (take 7 alg) key ct v tg [] = Inr cek" .
  then show ?thesis
    by (simp add: unwrap_def substr_0_7 r dec)
qed

theorem unwrap_wrap_witness:
  "wrap demo_aesgcmkw ''A256GCMKW'' [7] [1, 2, 3] (Some [9, 9]) (0 :: nat)
     = (Inr \<lparr>encryptedKey = [6, 5, 4], iv = demo_encode [9, 9],
              tag = demo_encode [9, 9]\<rparr>, 0)
   \<and> unwrap demo_aesgcmkw ''A256GCMKW'' [7] [6, 5, 4]
        (demo_decode (demo_encode [9, 9])) (demo_decode (demo_encode [9, 9]))
     = Inr [1, 2, 3]"
proof -
  let ?r = "\<lparr>encryptedKey = [6, 5, 4], iv = demo_encode [9, 9], tag = demo_encode [9, 9]\<rparr>"
  have b: "\<And>b. demo_decode (base64url demo_aesgcmkw b) = b"
    by (simp add: demo_aesgcmkw_def demo_decode_encode)
  have w: "wrap demo_aesgcmkw ''A256GCMKW'' [7] [1, 2, 3] (Some [9, 9]) (0 :: nat) = (Inr ?r, 0)"
    by (simp add: wrap_Some demo_aesgcmkw_def demo_mask_def)
  from unwrap_wrap [of demo_aesgcmkw demo_decode, OF demo_decrypt_encrypt b w] w
  show ?thesis by simp
qed

text \<open>
  C3. The identifier both operations pass on is \<open>alg.substr(0, 7)\<close>, the first seven
  characters of \<open>alg\<close>: \<open>unwrap\<close> calls \<open>decrypt\<close> with it, \<open>wrap\<close> calls
  \<open>encrypt\<close> with it and, when no IV is supplied, \<open>generateIv\<close> with it. On
  \<open>A128GCMKW\<close>, \<open>A192GCMKW\<close> and \<open>A256GCMKW\<close> it is \<open>A128GCM\<close>, \<open>A192GCM\<close>
  and \<open>A256GCM\<close>.
\<close>

theorem alg_truncated_to_aead_identifier:
  "substr alg 0 (Some 7) = take 7 alg
   \<and> unwrap I alg key ek v tg = decrypt I (take 7 alg) key ek v tg []
   \<and> wrap I alg key cek (Some v) w =
       (case encrypt I (take 7 alg) cek key v [] of
          Inl e \<Rightarrow> (Inl e, w)
        | Inr (ct, t) \<Rightarrow>
            (Inr \<lparr>encryptedKey = ct, iv = base64url I v, tag = base64url I t\<rparr>, w))
   \<and> wrap I alg key cek None w =
       (case generateIv I (take 7 alg) w of
          (Inl e, w') \<Rightarrow> (Inl e, w')
        | (Inr v', w') \<Rightarrow> wrap I alg key cek (Some v') w')
   \<and> substr ''A128GCMKW'' 0 (Some 7) = ''A128GCM''
   \<and> substr ''A192GCMKW'' 0 (Some 7) = ''A192GCM''
   \<and> substr ''A256GCMKW'' 0 (Some 7) = ''A256GCM''"
  by (simp add: substr_0_7 unwrap_def wrap_Some wrap_None)

text \<open>
  C7. With a supplied IV the outcome of \<open>wrap\<close> (the encrypted key, the encoded IV
  and the encoded tag, or the failure) is the same from any two states of the random
  source, and the random source is not consumed. The AEAD primitive is a function of
  its arguments in this model.
\<close>

theorem wrap_deterministic:
  "fst (wrap I alg key cek (Some v) w1) = fst (wrap I alg key cek (Some v) w2)
   \<and> snd (wrap I alg key cek (Some v) w1) = w1"
  by (simp add: wrap_Some split: sum.splits prod.splits)

section \<open>Properties of the key for signing and verifying\<close>

text \<open>
  C9. \<open>getCryptoKey\<close> returns for a \<open>Uint8Array\<close> exactly when the algorithm
  identifier starts with \<open>HS\<close>; for a \<open>Uint8Array\<close> with any other identifier, and
  for a key that is neither a \<open>CryptoKey\<close> nor a \<open>Uint8Array\<close>, it throws a
  \<open>TypeError\<close>. Every input has an outcome, a thrown value or a returned one.
\<close>

theorem getCryptoKey_acceptance:
  "((\<exists>r. getCryptoKey I alg (KeyUint8Array bytes) usage = Inr r) \<longleftrightarrow> startsWith alg ''HS'')
   \<and> (startsWith alg ''HS'' \<longleftrightarrow> (\<exists>rest. alg = ''HS'' @ rest))
   \<and> (\<not> startsWith alg ''HS'' \<longrightarrow>
        getCryptoKey I alg (KeyUint8Array bytes) usage
          = Inl (TypeError (invalidKeyInput I (KeyUint8Array bytes) [''CryptoKey''])))
   \<and> (\<not> isCryptoKey key \<and> \<not> isUint8Array key \<longrightarrow>
        getCryptoKey I alg key usage
          = Inl (TypeError (invalidKeyInput I key [''CryptoKey'', ''Uint8Array''])))
   \<and> ((\<exists>e. getCryptoKey I alg key usage = Inl e)
        \<or> (\<exists>r. getCryptoKey I alg key usage = Inr r))"
proof -
  have "startsWith alg ''HS'' \<longleftrightarrow> (\<exists>rest. alg = ''HS'' @ rest)"
    unfolding startsWith_def
    by (metis append_eq_conv_conj append_take_drop_id length_Cons list.size(3))
  moreover have "(\<exists>e. getCryptoKey I alg key usage = Inl e)
      \<or> (\<exists>r. getCryptoKey I alg key usage = Inr r)"
    by (cases "getCryptoKey I alg key usage") simp_all
  moreover have "(\<exists>r. getCryptoKey I alg (KeyUint8Array bytes) usage = Inr r)
      \<longleftrightarrow> startsWith alg ''HS''"
    by (simp add: getCryptoKey_def)
  moreover have "\<not> startsWith alg ''HS'' \<longrightarrow>
      getCryptoKey I alg (KeyUint8Array bytes) usage
        = Inl (TypeError (invalidKeyInput I (KeyUint8Array bytes) [''CryptoKey'']))"
    by (simp add: getCryptoKey_def)
  moreover have "\<not> isCryptoKey key \<and> \<not> isUint8Array key \<longrightarrow>
      getCryptoKey I alg key usage
        = Inl (TypeError (invalidKeyInput I key [''CryptoKey'', ''Uint8Array'']))"
    by (cases key) (simp_all add: getCryptoKey_def isCryptoKey_def isUint8Array_def)
  ultimately show ?thesis by blast
qed

theorem getCryptoKey_acceptance_witness:
  "\<not> startsWith ''RS256'' ''HS''
   \<and> getCryptoKey demo_sign_verify ''RS256'' (KeyUint8Array [1, 2]) Usage_sign
       = Inl (TypeError ''Key must be of type CryptoKey'')
   \<and> \<not> isCryptoKey (KeyOther () :: (nat, unit) key_input)
   \<and> \<not> isUint8Array (KeyOther () :: (nat, unit) key_input)
   \<and> getCryptoKey demo_sign_verify ''RS256'' (KeyOther ()) Usage_sign
       = Inl (TypeError ''Key must be of type CryptoKey or Uint8Array'')"
  using getCryptoKey_acceptance
    [of demo_sign_verify "''RS256''" "[1, 2]" Usage_sign "KeyOther ()"]
  by (simp add: startsWith_def isCryptoKey_def isUint8Array_def demo_sign_verify_def)

text \<open>
  C10. For \<open>HS256\<close>, \<open>HS384\<close> and \<open>HS512\<close> and any bytes, \<open>getCryptoKey\<close> returns
  the promise of \<open>importKey\<close> called with the format \<open>raw\<close>, the bytes, the algorithm
  \<open>HMAC\<close> with the hash \<open>SHA-\<close> followed by the last three characters of the
  identifier (\<open>SHA-256\<close>, \<open>SHA-384\<close>, \<open>SHA-512\<close>), extractable false, and the single
  requested usage.
\<close>

theorem getCryptoKey_imports_hmac:
  assumes "alg \<in> {''HS256'', ''HS384'', ''HS512''}"
  shows "getCryptoKey I alg (KeyUint8Array bytes) usage
           = Inr (PromiseOfKey
               (importKey I ''raw'' bytes
                  (HmacImportParams (Algorithm (''SHA-'' @ drop (length alg - 3) alg)) ''HMAC'')
                  False [usage]))
         \<and> ''SHA-'' @ drop (length alg - 3) alg
           = (if alg = ''HS256'' then ''SHA-256''
              else if alg = ''HS384'' then ''SHA-384'' else ''SHA-512'')"
  using assms by (auto simp add: getCryptoKey_def startsWith_def substr_last3)

theorem getCryptoKey_imports_hmac_witness:
  "''HS384'' \<in> {''HS256'', ''HS384'', ''HS512''}
   \<and> getCryptoKey demo_sign_verify ''HS384'' (KeyUint8Array [1, 2]) Usage_verify
       = Inr (PromiseOfKey
           (''raw'', [1, 2], HmacImportParams (Algorithm ''SHA-384'') ''HMAC'', False,
            [Usage_verify]))"
  using getCryptoKey_imports_hmac [of "''HS384''" demo_sign_verify "[1, 2]" Usage_verify]
  by (simp add: demo_sign_verify_def)

end
